theory Spec2Isabelle
  imports Main "HOL-Library.Sublist"
begin

section \<open>Python values, dictionaries and strings\<close>

text \<open>
  The scraper passes articles around as Python dictionaries from field names to values.
  The values that occur are strings and \<open>None\<close> (a JSON \<open>null\<close> of the search API).
  A dictionary is an association list read with \<open>map_of\<close>; \<open>dict_get d k v\<close> is
  \<open>d.get(k, v)\<close>.
\<close>

datatype pyval = PNone | PStr string

type_synonym article = "(string \<times> pyval) list"

definition dict_get :: "(string \<times> 'v) list \<Rightarrow> string \<Rightarrow> 'v \<Rightarrow> 'v" where
  "dict_get d k dflt = (case map_of d k of None \<Rightarrow> dflt | Some v \<Rightarrow> v)"

text \<open>Truthiness of a value: \<open>None\<close> and the empty string are false.\<close>

fun truthy :: "pyval \<Rightarrow> bool" where
  "truthy PNone = False"
| "truthy (PStr s) = (s \<noteq> [])"

section \<open>Deduplication (\<open>remove_duplicates\<close>)\<close>

text \<open>
  The loop of \<open>remove_duplicates\<close>: \<open>seen_urls\<close> is the set of keys met so far,
  \<open>unique_articles\<close> the list built so far; an article is appended when its key
  \<open>article.get('url', '')\<close> is not in the set.
\<close>

fun remove_duplicates_loop :: "article list \<Rightarrow> pyval set \<Rightarrow> article list \<Rightarrow> article list" where
  "remove_duplicates_loop [] seen_urls unique_articles = unique_articles"
| "remove_duplicates_loop (article # rest) seen_urls unique_articles =
     (let url = dict_get article ''url'' (PStr '''') in
      if url \<notin> seen_urls
      then remove_duplicates_loop rest (insert url seen_urls) (unique_articles @ [article])
      else remove_duplicates_loop rest seen_urls unique_articles)"

definition remove_duplicates :: "article list \<Rightarrow> article list" where
  "remove_duplicates articles = remove_duplicates_loop articles {} []"

text \<open>The deduplication key of an article.\<close>

definition url_key :: "article \<Rightarrow> pyval" where
  "url_key article = dict_get article ''url'' (PStr '''')"

text \<open>An article has no URL when the field \<open>url\<close> is absent or is the empty string.\<close>

definition no_url :: "article \<Rightarrow> bool" where
  "no_url article = (map_of article ''url'' = None \<or> map_of article ''url'' = Some (PStr ''''))"

section \<open>Exceptions and the log\<close>

text \<open>
  The exceptions the modelled code can raise itself, and \<open>Raised msg\<close> for an exception
  of the transport, of a parser or of the date parser, where \<open>msg\<close> is its \<open>str(e)\<close>.
  A fallible computation returns \<open>exn + 'a\<close>, with \<open>Inl\<close> for the exception.
\<close>

datatype exn =
    OverflowError
  | UnboundLocalError
  | KeyError string
  | TypeError
  | AttributeError
  | Raised string

datatype log_level = INFO | WARNING | ERROR

type_synonym log_entry = "log_level \<times> string"

definition squote :: string where
  "squote = [CHR 0x27]"

section \<open>Naive and aware datetimes\<close>

text \<open>
  A \<open>datetime\<close> object: its wall-clock fields, counted in microseconds since
  0001-01-01 00:00:00 (\<open>datetime.min\<close>), and its \<open>tzinfo\<close>, the offset from UTC in
  microseconds, or \<open>None\<close> for a naive datetime. \<open>datetime.max\<close> is
  9999-12-31 23:59:59.999999, the last microsecond of day 3652059.
\<close>

record pydatetime =
  wall :: int
  tzinfo :: "int option"

definition datetime_end_us :: int where
  "datetime_end_us = 3652059 * 86400000000"

text \<open>\<open>timedelta(hours=h)\<close> and \<open>timedelta(days=d)\<close>, in microseconds.\<close>

definition timedelta_hours :: "int \<Rightarrow> int" where
  "timedelta_hours h = h * 3600000000"

definition timedelta_days :: "int \<Rightarrow> int" where
  "timedelta_days d = d * 86400000000"

text \<open>
  \<open>dt - td\<close>: the wall clock moves, the \<open>tzinfo\<close> stays; a result outside
  \<open>datetime.min .. datetime.max\<close> raises \<open>OverflowError\<close>.
\<close>

definition datetime_sub :: "pydatetime \<Rightarrow> int \<Rightarrow> exn + pydatetime" where
  "datetime_sub dt td =
     (let w = wall dt - td in
      if 0 \<le> w \<and> w < datetime_end_us then Inr (dt\<lparr>wall := w\<rparr>) else Inl OverflowError)"

text \<open>
  \<open>a >= b\<close> on datetimes: two naive datetimes compare by their wall clocks, two aware
  ones by their instants in UTC, and a naive against an aware one raises \<open>TypeError\<close>.
\<close>

definition datetime_ge :: "pydatetime \<Rightarrow> pydatetime \<Rightarrow> exn + bool" where
  "datetime_ge a b =
     (case (tzinfo a, tzinfo b) of
        (None, None) \<Rightarrow> Inr (wall b \<le> wall a)
      | (Some oa, Some ob) \<Rightarrow> Inr (wall b - ob \<le> wall a - oa)
      | _ \<Rightarrow> Inl TypeError)"

text \<open>\<open>dt.replace(tzinfo=None)\<close>: the wall-clock fields are kept as they are.\<close>

definition replace_tzinfo_None :: "pydatetime \<Rightarrow> pydatetime" where
  "replace_tzinfo_None dt = dt\<lparr>tzinfo := None\<rparr>"

section \<open>Timeframe resolution (\<open>__init__\<close>, \<open>_calculate_timeframe\<close>)\<close>

text \<open>
  An entry of \<open>timeframe_options\<close> is a dictionary with the key \<open>hours\<close> or the key
  \<open>days\<close>, and a \<open>description\<close>.
\<close>

record timeframe_config =
  hours :: "int option"
  days :: "int option"
  description :: string

definition timeframe_options :: "(string \<times> timeframe_config) list" where
  "timeframe_options =
     [(''6h'', \<lparr>hours = Some 6, days = None, description = ''Last 6 hours''\<rparr>),
      (''12h'', \<lparr>hours = Some 12, days = None, description = ''Last 12 hours''\<rparr>),
      (''24h'', \<lparr>hours = Some 24, days = None, description = ''Last 24 hours''\<rparr>),
      (''2d'', \<lparr>hours = None, days = Some 2, description = ''Last 2 days''\<rparr>),
      (''3d'', \<lparr>hours = None, days = Some 3, description = ''Last 3 days''\<rparr>),
      (''7d'', \<lparr>hours = None, days = Some 7, description = ''Last week''\<rparr>),
      (''14d'', \<lparr>hours = None, days = Some 14, description = ''Last 2 weeks''\<rparr>),
      (''30d'', \<lparr>hours = None, days = Some 30, description = ''Last month''\<rparr>),
      (''60d'', \<lparr>hours = None, days = Some 60, description = ''Last 2 months''\<rparr>),
      (''90d'', \<lparr>hours = None, days = Some 90, description = ''Last 3 months''\<rparr>)]"

text \<open>
  \<open>_calculate_timeframe\<close>, on the token \<open>self.timeframe\<close> and the reading \<open>now\<close> of
  \<open>datetime.now()\<close> (a naive datetime). It returns the token it has left in
  \<open>self.timeframe\<close>, the log lines it wrote, and the pair \<open>(start_date, end_date)\<close>.
\<close>

definition calculate_timeframe ::
  "string \<Rightarrow> int \<Rightarrow> exn + (string \<times> log_entry list \<times> pydatetime \<times> pydatetime)" where
  "calculate_timeframe tf now =
     (let end_date = \<lparr>wall = now, tzinfo = None\<rparr>;
          (tf', logged) =
            (if map_of timeframe_options tf = None
             then (''7d'',
                   [(WARNING, ''Invalid timeframe '' @ squote @ tf @ squote @
                              '', defaulting to '' @ squote @ ''7d'' @ squote)])
             else (tf, []))
      in case map_of timeframe_options tf' of
           None \<Rightarrow> Inl (KeyError tf')
         | Some timeframe_config \<Rightarrow>
             (case (case hours timeframe_config of
                      Some h \<Rightarrow> datetime_sub end_date (timedelta_hours h)
                    | None \<Rightarrow>
                        (case days timeframe_config of
                           Some d \<Rightarrow> datetime_sub end_date (timedelta_days d)
                         | None \<Rightarrow> Inl UnboundLocalError)) of
                Inl e \<Rightarrow> Inl e
              | Inr start_date \<Rightarrow> Inr (tf', logged, start_date, end_date)))"

text \<open>
  The fields of the scraper object that the modelled methods read, and the log lines
  written so far (\<open>logger\<close>).
\<close>

record scraper =
  timeframe :: string
  start_date :: pydatetime
  end_date :: pydatetime
  log :: "log_entry list"

text \<open>
  \<open>__init__(timeframe)\<close>: the token is stored, and then replaced by what
  \<open>_calculate_timeframe\<close> leaves, with the window it returns.
\<close>

definition scraper_init :: "string \<Rightarrow> int \<Rightarrow> exn + scraper" where
  "scraper_init tf now =
     (case calculate_timeframe tf now of
        Inl e \<Rightarrow> Inl e
      | Inr (tf', logged, w_start, w_end) \<Rightarrow>
          Inr \<lparr>timeframe = tf', start_date = w_start, end_date = w_end, log = logged\<rparr>)"

section \<open>Timeframe membership (\<open>is_article_in_timeframe\<close>)\<close>

text \<open>
  \<open>email.utils.parsedate_to_datetime\<close> is a capability of the standard library: a
  function from the date string to the datetime it parses to (naive, or aware with its
  offset), or to the exception it raises.

  \<open>in_timeframe_body\<close> is the body of the \<open>try\<close>; \<open>is_article_in_timeframe\<close> returns
  \<open>True\<close> for the empty string before it, and for every exception of the body (the bare
  \<open>except\<close>).
\<close>

type_synonym date_parser = "string \<Rightarrow> exn + pydatetime"

definition in_timeframe_body :: "date_parser \<Rightarrow> scraper \<Rightarrow> string \<Rightarrow> exn + bool" where
  "in_timeframe_body parsedate_to_datetime self pub_date_str =
     (case parsedate_to_datetime pub_date_str of
        Inl e \<Rightarrow> Inl e
      | Inr pub_date \<Rightarrow>
          (let pub_date' = (if tzinfo pub_date \<noteq> None then replace_tzinfo_None pub_date
                            else pub_date)
           in datetime_ge pub_date' (start_date self)))"

definition is_article_in_timeframe :: "date_parser \<Rightarrow> scraper \<Rightarrow> string \<Rightarrow> bool" where
  "is_article_in_timeframe parsedate_to_datetime self pub_date_str =
     (if pub_date_str = [] then True
      else case in_timeframe_body parsedate_to_datetime self pub_date_str of
             Inl e \<Rightarrow> True
           | Inr b \<Rightarrow> b)"

text \<open>
  The durations that the specification documents for the enumerated timeframe tokens,
  written from its words, in hours: a token \<open>Nh\<close> is N hours and a token \<open>Nd\<close> is N days
  of 24 hours. It is compared with what \<open>calculate_timeframe\<close> computes.
\<close>

definition documented_hours :: "(string \<times> int) list" where
  "documented_hours =
     [(''6h'', 6), (''12h'', 12), (''24h'', 24), (''2d'', 2 * 24), (''3d'', 3 * 24),
      (''7d'', 7 * 24), (''14d'', 14 * 24), (''30d'', 30 * 24), (''60d'', 60 * 24),
      (''90d'', 90 * 24)]"

section \<open>The top level (\<open>main\<close>)\<close>

text \<open>
  \<open>main\<close>, from the token that \<open>parse_timeframe_argument\<close> returned: it builds the
  scraper, logs the description of the timeframe, which it looks up under the token
  \<open>timeframe\<close> it was given (\<open>scraper.timeframe_options[timeframe]\<close>, not under
  \<open>scraper.timeframe\<close>), and goes on with scraping and saving, here the continuation
  \<open>rest\<close>. Any exception of the body is logged and ends the process with \<open>exit(1)\<close>.
\<close>

datatype 'a outcome = Exit1 exn | Finished 'a

definition main_body :: "string \<Rightarrow> int \<Rightarrow> (scraper \<Rightarrow> exn + 'a) \<Rightarrow> exn + 'a" where
  "main_body tf now rest =
     (case scraper_init tf now of
        Inl e \<Rightarrow> Inl e
      | Inr self \<Rightarrow>
          (case map_of timeframe_options tf of
             None \<Rightarrow> Inl (KeyError tf)
           | Some timeframe_config \<Rightarrow>
               rest (self\<lparr>log := log self @
                      [(INFO, ''Starting quick commerce news scraping...''),
                       (INFO, ''Timeframe: '' @ description timeframe_config)]\<rparr>)))"

definition main :: "string \<Rightarrow> int \<Rightarrow> (scraper \<Rightarrow> exn + 'a) \<Rightarrow> 'a outcome" where
  "main tf now rest =
     (case main_body tf now rest of Inl e \<Rightarrow> Exit1 e | Inr r \<Rightarrow> Finished r)"

section \<open>Properties of timeframe resolution\<close>

text \<open>
  The durations the specification documents for the enumerated tokens, in hours:
  a token \<open>Nh\<close> is N hours, a token \<open>Nd\<close> is N days of 24 hours.
\<close>

lemma timeframe_options_keys:
  "map fst timeframe_options =
     [''6h'', ''12h'', ''24h'', ''2d'', ''3d'', ''7d'', ''14d'', ''30d'', ''60d'', ''90d'']"
  by (simp add: timeframe_options_def)

lemma calculate_timeframe_hours:
  assumes "map_of timeframe_options tf = Some cfg" and "hours cfg = Some h"
    and "timedelta_hours h \<le> now" and "0 \<le> h" and "now < datetime_end_us"
  shows "calculate_timeframe tf now =
           Inr (tf, [], \<lparr>wall = now - timedelta_hours h, tzinfo = None\<rparr>,
                \<lparr>wall = now, tzinfo = None\<rparr>)"
proof -
  have "0 \<le> timedelta_hours h"
    using assms(4) by (simp add: timedelta_hours_def)
  then show ?thesis
    using assms by (simp add: calculate_timeframe_def datetime_sub_def)
qed

lemma calculate_timeframe_days:
  assumes "map_of timeframe_options tf = Some cfg" and "hours cfg = None" and "days cfg = Some d"
    and "timedelta_days d \<le> now" and "0 \<le> d" and "now < datetime_end_us"
  shows "calculate_timeframe tf now =
           Inr (tf, [], \<lparr>wall = now - timedelta_days d, tzinfo = None\<rparr>,
                \<lparr>wall = now, tzinfo = None\<rparr>)"
proof -
  have "0 \<le> timedelta_days d"
    using assms(5) by (simp add: timedelta_days_def)
  then show ?thesis
    using assms by (simp add: calculate_timeframe_def datetime_sub_def)
qed

lemma calculate_timeframe_7d:
  assumes "604800000000 \<le> now" and "now < datetime_end_us"
  shows "calculate_timeframe ''7d'' now =
           Inr (''7d'', [], \<lparr>wall = now - 604800000000, tzinfo = None\<rparr>,
                \<lparr>wall = now, tzinfo = None\<rparr>)"
  using calculate_timeframe_days
    [of "''7d''" "\<lparr>hours = None, days = Some 7, description = ''Last week''\<rparr>" 7 now] assms
  by (simp add: timeframe_options_def timedelta_days_def)

lemma documented_hours_cases:
  "(tok, n) \<in> set documented_hours \<Longrightarrow>
   (tok = ''6h'' \<and> n = 6) \<or> (tok = ''12h'' \<and> n = 12) \<or> (tok = ''24h'' \<and> n = 24) \<or>
   (tok = ''2d'' \<and> n = 48) \<or> (tok = ''3d'' \<and> n = 72) \<or> (tok = ''7d'' \<and> n = 168) \<or>
   (tok = ''14d'' \<and> n = 336) \<or> (tok = ''30d'' \<and> n = 720) \<or> (tok = ''60d'' \<and> n = 1440) \<or>
   (tok = ''90d'' \<and> n = 2160)"
  unfolding documented_hours_def by (simp only: list.set insert_iff empty_iff prod.inject) simp

lemma timeframe_options_lookup:
  "map_of timeframe_options ''6h'' = Some \<lparr>hours = Some 6, days = None, description = ''Last 6 hours''\<rparr>"
  "map_of timeframe_options ''12h'' = Some \<lparr>hours = Some 12, days = None, description = ''Last 12 hours''\<rparr>"
  "map_of timeframe_options ''24h'' = Some \<lparr>hours = Some 24, days = None, description = ''Last 24 hours''\<rparr>"
  "map_of timeframe_options ''2d'' = Some \<lparr>hours = None, days = Some 2, description = ''Last 2 days''\<rparr>"
  "map_of timeframe_options ''3d'' = Some \<lparr>hours = None, days = Some 3, description = ''Last 3 days''\<rparr>"
  "map_of timeframe_options ''7d'' = Some \<lparr>hours = None, days = Some 7, description = ''Last week''\<rparr>"
  "map_of timeframe_options ''14d'' = Some \<lparr>hours = None, days = Some 14, description = ''Last 2 weeks''\<rparr>"
  "map_of timeframe_options ''30d'' = Some \<lparr>hours = None, days = Some 30, description = ''Last month''\<rparr>"
  "map_of timeframe_options ''60d'' = Some \<lparr>hours = None, days = Some 60, description = ''Last 2 months''\<rparr>"
  "map_of timeframe_options ''90d'' = Some \<lparr>hours = None, days = Some 90, description = ''Last 3 months''\<rparr>"
  by (simp_all add: timeframe_options_def)

lemma window_hours:
  assumes "map_of timeframe_options tf = Some cfg" and "hours cfg = Some h"
    and "0 < h" and "h \<le> 2160" and "7776000000000 \<le> now" and "now < datetime_end_us"
  shows "\<exists>first last.
           calculate_timeframe tf now = Inr (tf, [], first, last) \<and>
           tzinfo first = None \<and> tzinfo last = None \<and> wall last = now \<and>
           wall first < wall last \<and> wall last - wall first = h * 3600000000"
proof -
  have "timedelta_hours h \<le> now"
    using assms(4,5) by (simp add: timedelta_hours_def)
  then have "calculate_timeframe tf now =
           Inr (tf, [], \<lparr>wall = now - timedelta_hours h, tzinfo = None\<rparr>,
                \<lparr>wall = now, tzinfo = None\<rparr>)"
    using assms by (intro calculate_timeframe_hours [of tf cfg h now]) simp_all
  then show ?thesis
    using assms(3) by (simp add: timedelta_hours_def)
qed

lemma window_days:
  assumes "map_of timeframe_options tf = Some cfg" and "hours cfg = None" and "days cfg = Some d"
    and "0 < d" and "d \<le> 90" and "7776000000000 \<le> now" and "now < datetime_end_us"
  shows "\<exists>first last.
           calculate_timeframe tf now = Inr (tf, [], first, last) \<and>
           tzinfo first = None \<and> tzinfo last = None \<and> wall last = now \<and>
           wall first < wall last \<and> wall last - wall first = (d * 24) * 3600000000"
proof -
  have "timedelta_days d \<le> now"
    using assms(5,6) by (simp add: timedelta_days_def)
  then have "calculate_timeframe tf now =
           Inr (tf, [], \<lparr>wall = now - timedelta_days d, tzinfo = None\<rparr>,
                \<lparr>wall = now, tzinfo = None\<rparr>)"
    using assms by (intro calculate_timeframe_days [of tf cfg d now]) simp_all
  then show ?thesis
    using assms(4) by (simp add: timedelta_days_def)
qed

text \<open>
  Claim C5: for every token of the enumerated set, with the clock reading \<open>now\<close> at least
  90 days after \<open>datetime.min\<close>, the window is resolved without an exception and without a
  warning, it ends at \<open>now\<close>, its start is strictly before its end, and its length is
  exactly the documented number of hours (3600000000 microseconds each).
\<close>

theorem calculate_timeframe_documented_duration:
  assumes "(tok, n) \<in> set documented_hours"
    and "7776000000000 \<le> now" and "now < datetime_end_us"
  shows "\<exists>first last.
           calculate_timeframe tok now = Inr (tok, [], first, last) \<and>
           tzinfo first = None \<and> tzinfo last = None \<and> wall last = now \<and>
           wall first < wall last \<and> wall last - wall first = n * 3600000000"
  using documented_hours_cases [OF assms(1)]
proof (elim disjE conjE)
  assume "tok = ''6h''" "n = 6"
  then show ?thesis
    using window_hours [OF timeframe_options_lookup(1) _ _ _ assms(2,3), of 6] by simp
next
  assume "tok = ''12h''" "n = 12"
  then show ?thesis
    using window_hours [OF timeframe_options_lookup(2) _ _ _ assms(2,3), of 12] by simp
next
  assume "tok = ''24h''" "n = 24"
  then show ?thesis
    using window_hours [OF timeframe_options_lookup(3) _ _ _ assms(2,3), of 24] by simp
next
  assume "tok = ''2d''" "n = 48"
  then show ?thesis
    using window_days [OF timeframe_options_lookup(4) _ _ _ _ assms(2,3), of 2] by simp
next
  assume "tok = ''3d''" "n = 72"
  then show ?thesis
    using window_days [OF timeframe_options_lookup(5) _ _ _ _ assms(2,3), of 3] by simp
next
  assume "tok = ''7d''" "n = 168"
  then show ?thesis
    using window_days [OF timeframe_options_lookup(6) _ _ _ _ assms(2,3), of 7] by simp
next
  assume "tok = ''14d''" "n = 336"
  then show ?thesis
    using window_days [OF timeframe_options_lookup(7) _ _ _ _ assms(2,3), of 14] by simp
next
  assume "tok = ''30d''" "n = 720"
  then show ?thesis
    using window_days [OF timeframe_options_lookup(8) _ _ _ _ assms(2,3), of 30] by simp
next
  assume "tok = ''60d''" "n = 1440"
  then show ?thesis
    using window_days [OF timeframe_options_lookup(9) _ _ _ _ assms(2,3), of 60] by simp
next
  assume "tok = ''90d''" "n = 2160"
  then show ?thesis
    using window_days [OF timeframe_options_lookup(10) _ _ _ _ assms(2,3), of 90] by simp
qed

theorem calculate_timeframe_documented_duration_witness:
  "(''24h'', 24) \<in> set documented_hours \<and>
   (7776000000000 :: int) \<le> 63900000000000000 \<and> 63900000000000000 < datetime_end_us \<and>
   calculate_timeframe ''24h'' 63900000000000000 =
     Inr (''24h'', [], \<lparr>wall = 63899913600000000, tzinfo = None\<rparr>,
          \<lparr>wall = 63900000000000000, tzinfo = None\<rparr>) \<and>
   (63900000000000000 :: int) - 63899913600000000 = 24 * 3600000000"
proof -
  have a: "(''24h'', 24) \<in> set documented_hours"
    by (simp add: documented_hours_def)
  have b: "(7776000000000 :: int) \<le> 63900000000000000"
    by simp
  have c: "63900000000000000 < datetime_end_us"
    by (simp add: datetime_end_us_def)
  obtain first last where
    r: "calculate_timeframe ''24h'' 63900000000000000 = Inr (''24h'', [], first, last)"
    and t: "tzinfo first = None" "tzinfo last = None"
    and w: "wall last = 63900000000000000" "wall last - wall first = 24 * 3600000000"
    using calculate_timeframe_documented_duration [OF a b c] by blast
  from w have "wall first = 63899913600000000"
    by simp
  with t w(1) have "first = \<lparr>wall = 63899913600000000, tzinfo = None\<rparr>"
    and "last = \<lparr>wall = 63900000000000000, tzinfo = None\<rparr>"
    by simp_all
  with r a b c show ?thesis
    by simp
qed

text \<open>
  Timeframe resolution on a token that is not a key of the timeframe table: the token is
  replaced by \<open>7d\<close>, the call returns (no exception) the window that the token \<open>7d\<close>
  gives at the same reading of the clock, and logs exactly one warning, which resolving
  \<open>7d\<close> itself does not.
\<close>

lemma calculate_timeframe_unknown_token:
  assumes "tok \<notin> set (map fst timeframe_options)"
    and "604800000000 \<le> now" and "now < datetime_end_us"
  shows "calculate_timeframe tok now =
           Inr (''7d'',
                [(WARNING, ''Invalid timeframe '' @ squote @ tok @ squote @
                           '', defaulting to '' @ squote @ ''7d'' @ squote)],
                \<lparr>wall = now - 604800000000, tzinfo = None\<rparr>, \<lparr>wall = now, tzinfo = None\<rparr>) \<and>
         calculate_timeframe ''7d'' now =
           Inr (''7d'', [], \<lparr>wall = now - 604800000000, tzinfo = None\<rparr>,
                \<lparr>wall = now, tzinfo = None\<rparr>)"
proof
  have none: "map_of timeframe_options tok = None"
    using assms(1) by (simp add: map_of_eq_None_iff)
  have "0 \<le> now - 604800000000" and "now - 604800000000 < datetime_end_us"
    using assms(2,3) by simp_all
  then show "calculate_timeframe tok now =
           Inr (''7d'',
                [(WARNING, ''Invalid timeframe '' @ squote @ tok @ squote @
                           '', defaulting to '' @ squote @ ''7d'' @ squote)],
                \<lparr>wall = now - 604800000000, tzinfo = None\<rparr>, \<lparr>wall = now, tzinfo = None\<rparr>)"
    by (simp add: calculate_timeframe_def none timeframe_options_lookup(6) datetime_sub_def
        timedelta_days_def)
next
  show "calculate_timeframe ''7d'' now =
           Inr (''7d'', [], \<lparr>wall = now - 604800000000, tzinfo = None\<rparr>,
                \<lparr>wall = now, tzinfo = None\<rparr>)"
    using assms(2,3) by (rule calculate_timeframe_7d)
qed

lemma calculate_timeframe_unknown_token_example:
  "''1y'' \<notin> set (map fst timeframe_options) \<and>
   (604800000000 :: int) \<le> 63900000000000000 \<and> 63900000000000000 < datetime_end_us \<and>
   calculate_timeframe ''1y'' 63900000000000000 =
     Inr (''7d'',
          [(WARNING, ''Invalid timeframe '' @ squote @ ''1y'' @ squote @
                     '', defaulting to '' @ squote @ ''7d'' @ squote)],
          \<lparr>wall = 63899395200000000, tzinfo = None\<rparr>,
          \<lparr>wall = 63900000000000000, tzinfo = None\<rparr>) \<and>
   calculate_timeframe ''7d'' 63900000000000000 =
     Inr (''7d'', [], \<lparr>wall = 63899395200000000, tzinfo = None\<rparr>,
          \<lparr>wall = 63900000000000000, tzinfo = None\<rparr>)"
proof -
  have a: "''1y'' \<notin> set (map fst timeframe_options)"
    by (simp add: timeframe_options_keys)
  have b: "(604800000000 :: int) \<le> 63900000000000000"
    by simp
  have c: "63900000000000000 < datetime_end_us"
    by (simp add: datetime_end_us_def)
  show ?thesis
    using calculate_timeframe_unknown_token [OF a b c] a b c by simp
qed

text \<open>
  Claim C6, on the code: resolution of an unknown token falls back to \<open>7d\<close> as above, but
  the run does not go on. With the token \<open>1y\<close> (not in the table), \<open>main\<close> builds the
  scraper with the window of \<open>7d\<close> and then raises \<open>KeyError\<close> on its own lookup of the
  token, so the process ends with \<open>exit(1)\<close> before anything is scraped, whatever the rest
  of the run would do.
\<close>

theorem main_unknown_token_exits:
  "scraper_init ''1y'' 63900000000000000 =
     Inr \<lparr>timeframe = ''7d'',
          start_date = \<lparr>wall = 63899395200000000, tzinfo = None\<rparr>,
          end_date = \<lparr>wall = 63900000000000000, tzinfo = None\<rparr>,
          log = [(WARNING, ''Invalid timeframe '' @ squote @ ''1y'' @ squote @
                           '', defaulting to '' @ squote @ ''7d'' @ squote)]\<rparr> \<and>
   main ''1y'' 63900000000000000 rest = Exit1 (KeyError ''1y'')"
proof -
  have r: "calculate_timeframe ''1y'' 63900000000000000 =
     Inr (''7d'',
          [(WARNING, ''Invalid timeframe '' @ squote @ ''1y'' @ squote @
                     '', defaulting to '' @ squote @ ''7d'' @ squote)],
          \<lparr>wall = 63899395200000000, tzinfo = None\<rparr>,
          \<lparr>wall = 63900000000000000, tzinfo = None\<rparr>)"
    using calculate_timeframe_unknown_token_example by simp
  have n: "map_of timeframe_options ''1y'' = None"
    by (simp add: map_of_eq_None_iff timeframe_options_keys flip: set_map)
  show ?thesis
    by (simp add: main_def main_body_def scraper_init_def r n)
qed

section \<open>Properties of deduplication\<close>

lemma loop_acc:
  "remove_duplicates_loop xs seen acc = acc @ remove_duplicates_loop xs seen []"
proof (induction xs arbitrary: seen acc)
  case Nil
  show ?case by simp
next
  case (Cons a xs)
  have l: "remove_duplicates_loop xs s (acc @ [a]) = acc @ [a] @ remove_duplicates_loop xs s []" for s
    using Cons.IH [of s "acc @ [a]"] by simp
  have r: "remove_duplicates_loop xs s [a] = [a] @ remove_duplicates_loop xs s []" for s
    using Cons.IH [of s "[a]"] by simp
  show ?case
    using l r Cons.IH [of seen acc] by (simp add: Let_def)
qed

lemma loop_Cons:
  "remove_duplicates_loop (a # xs) seen [] =
     (if url_key a \<in> seen then remove_duplicates_loop xs seen []
      else a # remove_duplicates_loop xs (insert (url_key a) seen) [])"
  using loop_acc [of xs "insert (url_key a) seen" "[a]"]
  by (simp add: Let_def url_key_def)

lemma loop_filter_key:
  "filter (\<lambda>a. url_key a = u) (remove_duplicates_loop xs seen []) =
     (if u \<in> seen then [] else take 1 (filter (\<lambda>a. url_key a = u) xs))"
proof (induction xs arbitrary: seen)
  case Nil
  show ?case by simp
next
  case (Cons a xs)
  show ?case
    unfolding loop_Cons by (auto simp: Cons.IH)
qed

lemma loop_keys_fresh:
  "url_key ` set (remove_duplicates_loop xs seen []) \<inter> seen = {}"
proof (induction xs arbitrary: seen)
  case Nil
  show ?case by simp
next
  case (Cons a xs)
  show ?case
    unfolding loop_Cons using Cons.IH [of seen] Cons.IH [of "insert (url_key a) seen"] by auto
qed

lemma loop_keys_distinct:
  "distinct (map url_key (remove_duplicates_loop xs seen []))"
proof (induction xs arbitrary: seen)
  case Nil
  show ?case by simp
next
  case (Cons a xs)
  show ?case
    unfolding loop_Cons
    using Cons.IH [of seen] Cons.IH [of "insert (url_key a) seen"]
      loop_keys_fresh [of xs "insert (url_key a) seen"]
    by auto
qed

lemma loop_fixed:
  "distinct (map url_key xs) \<Longrightarrow> url_key ` set xs \<inter> seen = {} \<Longrightarrow>
   remove_duplicates_loop xs seen [] = xs"
proof (induction xs arbitrary: seen)
  case Nil
  show ?case by simp
next
  case (Cons a xs)
  from Cons.prems have fresh: "url_key a \<notin> seen" by auto
  from Cons.prems have "distinct (map url_key xs)"
    and "url_key ` set xs \<inter> insert (url_key a) seen = {}" by auto
  then have "remove_duplicates_loop xs (insert (url_key a) seen) [] = xs"
    by (rule Cons.IH)
  with fresh show ?case unfolding loop_Cons by simp
qed

lemma loop_subseq: "subseq (remove_duplicates_loop xs seen []) xs"
proof (induction xs arbitrary: seen)
  case Nil
  show ?case by simp
next
  case (Cons a xs)
  show ?case
    unfolding loop_Cons
    using Cons.IH [of seen] Cons.IH [of "insert (url_key a) seen"]
    by (auto intro: list_emb_Cons)
qed

section \<open>Claims about deduplication\<close>

lemma no_url_key: "no_url a = (url_key a = PStr '''')"
  by (auto simp: no_url_def url_key_def dict_get_def split: option.splits)

text \<open>
  Claim C1, as the code has it: articles whose URL is absent or empty all share the key
  \<open>''\<close>, so they are deduplicated against each other. Of all the articles without a URL
  in the input, exactly the first one is in the output.
\<close>

theorem remove_duplicates_no_url_first_only:
  "filter no_url (remove_duplicates L) = take 1 (filter no_url L)"
proof -
  have "filter (\<lambda>a. url_key a = PStr '''') (remove_duplicates_loop L {} []) =
        take 1 (filter (\<lambda>a. url_key a = PStr '''') L)"
    using loop_filter_key [of "PStr ''''" L "{}"] by simp
  moreover have "no_url = (\<lambda>a. url_key a = PStr '''')"
    by (rule ext) (rule no_url_key)
  ultimately show ?thesis
    by (simp add: remove_duplicates_def)
qed

text \<open>
  Claim C1, as stated, fails: of two articles without a URL (one with the field absent,
  one with the empty string) the second is not in the output.
\<close>

theorem remove_duplicates_no_url_counterexample:
  "no_url [(''title'', PStr ''first'')] \<and>
   no_url [(''url'', PStr ''''), (''title'', PStr ''second'')] \<and>
   [(''url'', PStr ''''), (''title'', PStr ''second'')] \<notin>
     set (remove_duplicates
       [[(''title'', PStr ''first'')], [(''url'', PStr ''''), (''title'', PStr ''second'')]]) \<and>
   remove_duplicates
       [[(''title'', PStr ''first'')], [(''url'', PStr ''''), (''title'', PStr ''second'')]] =
     [[(''title'', PStr ''first'')]]"
  by (simp add: no_url_def remove_duplicates_def dict_get_def)

text \<open>
  Claim C4: deduplication is idempotent, a second pass returns the list of the first
  unchanged; it preserves the order of the input (the output is a subsequence of it); and
  on \<open>[A, B, C]\<close> where \<open>A\<close> and \<open>C\<close> have the URL \<open>u1\<close> and \<open>B\<close> another URL \<open>u2\<close>
  the output is \<open>[A, B]\<close>.
\<close>

theorem remove_duplicates_idempotent:
  "remove_duplicates (remove_duplicates L) = remove_duplicates L \<and>
   subseq (remove_duplicates L) L \<and>
   (url_key A = u1 \<and> url_key B = u2 \<and> url_key C = u1 \<and> u1 \<noteq> u2 \<longrightarrow>
      remove_duplicates [A, B, C] = [A, B])"
proof (intro conjI impI)
  have "remove_duplicates_loop (remove_duplicates_loop L {} []) {} [] =
        remove_duplicates_loop L {} []"
    by (rule loop_fixed) (simp_all add: loop_keys_distinct)
  then show "remove_duplicates (remove_duplicates L) = remove_duplicates L"
    by (simp add: remove_duplicates_def)
next
  show "subseq (remove_duplicates L) L"
    by (simp add: remove_duplicates_def loop_subseq)
next
  assume "url_key A = u1 \<and> url_key B = u2 \<and> url_key C = u1 \<and> u1 \<noteq> u2"
  then show "remove_duplicates [A, B, C] = [A, B]"
    by (auto simp: remove_duplicates_def loop_Cons simp del: remove_duplicates_loop.simps(2))
qed

theorem remove_duplicates_idempotent_witness:
  "remove_duplicates (remove_duplicates
      [[(''url'', PStr ''u1''), (''title'', PStr ''A'')],
       [(''url'', PStr ''u2''), (''title'', PStr ''B'')],
       [(''url'', PStr ''u1''), (''title'', PStr ''C'')]]) =
    [[(''url'', PStr ''u1''), (''title'', PStr ''A'')],
     [(''url'', PStr ''u2''), (''title'', PStr ''B'')]] \<and>
   url_key [(''url'', PStr ''u1''), (''title'', PStr ''A'')] = PStr ''u1'' \<and>
   url_key [(''url'', PStr ''u2''), (''title'', PStr ''B'')] = PStr ''u2'' \<and>
   url_key [(''url'', PStr ''u1''), (''title'', PStr ''C'')] = PStr ''u1'' \<and>
   PStr ''u1'' \<noteq> PStr ''u2'' \<and>
   remove_duplicates
      [[(''url'', PStr ''u1''), (''title'', PStr ''A'')],
       [(''url'', PStr ''u2''), (''title'', PStr ''B'')],
       [(''url'', PStr ''u1''), (''title'', PStr ''C'')]] =
    [[(''url'', PStr ''u1''), (''title'', PStr ''A'')],
     [(''url'', PStr ''u2''), (''title'', PStr ''B'')]]"
  using remove_duplicates_idempotent
    [of "[[(''url'', PStr ''u1''), (''title'', PStr ''A'')],
          [(''url'', PStr ''u2''), (''title'', PStr ''B'')],
          [(''url'', PStr ''u1''), (''title'', PStr ''C'')]]"
        "[(''url'', PStr ''u1''), (''title'', PStr ''A'')]" "PStr ''u1''"
        "[(''url'', PStr ''u2''), (''title'', PStr ''B'')]" "PStr ''u2''"
        "[(''url'', PStr ''u1''), (''title'', PStr ''C'')]"]
  by (simp add: url_key_def dict_get_def remove_duplicates_def)

end
